theory Spec2Isabelle
  imports Complex_Main "HOL-Library.Product_Lexorder" "HOL-Library.Multiset"
begin

section \<open>Strings and messages\<close>

text \<open>
  JavaScript strings are modelled as \<^typ>\<open>string\<close>, read as the UTF-8 bytes of the text.
  The server's messages are Russian; each one is written out byte by byte, with its
  place in the source and its meaning in the comment. A substring test on the UTF-8
  bytes of two well-formed texts agrees with \<^verbatim>\<open>String.prototype.includes\<close>.
\<close>

definition MSG_BAD_CREDENTIALS :: string where
  \<comment> \<open>routes.ts 87, 92: wrong e-mail or password\<close>
  "MSG_BAD_CREDENTIALS =
    [CHR 0xD0, CHR 0x9D, CHR 0xD0, CHR 0xB5, CHR 0xD0, CHR 0xB2, CHR 0xD0, CHR 0xB5, CHR 0xD1,
     CHR 0x80, CHR 0xD0, CHR 0xBD, CHR 0xD1, CHR 0x8B, CHR 0xD0, CHR 0xB9, CHR 0x20, CHR 0x65,
     CHR 0x6D, CHR 0x61, CHR 0x69, CHR 0x6C, CHR 0x20, CHR 0xD0, CHR 0xB8, CHR 0xD0, CHR 0xBB,
     CHR 0xD0, CHR 0xB8, CHR 0x20, CHR 0xD0, CHR 0xBF, CHR 0xD0, CHR 0xB0, CHR 0xD1, CHR 0x80,
     CHR 0xD0, CHR 0xBE, CHR 0xD0, CHR 0xBB, CHR 0xD1, CHR 0x8C]"

definition MSG_SERVER_ERROR :: string where
  \<comment> \<open>routes.ts 115, 141, 245, 334, 439, 546: server error\<close>
  "MSG_SERVER_ERROR =
    [CHR 0xD0, CHR 0x9E, CHR 0xD1, CHR 0x88, CHR 0xD0, CHR 0xB8, CHR 0xD0, CHR 0xB1, CHR 0xD0,
     CHR 0xBA, CHR 0xD0, CHR 0xB0, CHR 0x20, CHR 0xD1, CHR 0x81, CHR 0xD0, CHR 0xB5, CHR 0xD1,
     CHR 0x80, CHR 0xD0, CHR 0xB2, CHR 0xD0, CHR 0xB5, CHR 0xD1, CHR 0x80, CHR 0xD0, CHR 0xB0]"

definition MSG_USER_NOT_FOUND :: string where
  \<comment> \<open>routes.ts 125: no user with this e-mail was found\<close>
  "MSG_USER_NOT_FOUND =
    [CHR 0xD0, CHR 0x9F, CHR 0xD0, CHR 0xBE, CHR 0xD0, CHR 0xBB, CHR 0xD1, CHR 0x8C, CHR 0xD0,
     CHR 0xB7, CHR 0xD0, CHR 0xBE, CHR 0xD0, CHR 0xB2, CHR 0xD0, CHR 0xB0, CHR 0xD1, CHR 0x82,
     CHR 0xD0, CHR 0xB5, CHR 0xD0, CHR 0xBB, CHR 0xD1, CHR 0x8C, CHR 0x20, CHR 0xD1, CHR 0x81,
     CHR 0x20, CHR 0xD1, CHR 0x82, CHR 0xD0, CHR 0xB0, CHR 0xD0, CHR 0xBA, CHR 0xD0, CHR 0xB8,
     CHR 0xD0, CHR 0xBC, CHR 0x20, CHR 0x65, CHR 0x6D, CHR 0x61, CHR 0x69, CHR 0x6C, CHR 0x20,
     CHR 0xD0, CHR 0xBD, CHR 0xD0, CHR 0xB5, CHR 0x20, CHR 0xD0, CHR 0xBD, CHR 0xD0, CHR 0xB0,
     CHR 0xD0, CHR 0xB9, CHR 0xD0, CHR 0xB4, CHR 0xD0, CHR 0xB5, CHR 0xD0, CHR 0xBD]"

definition MSG_RESET_SENT :: string where
  \<comment> \<open>routes.ts 135, 137: password recovery instructions were sent to your e-mail\<close>
  "MSG_RESET_SENT =
    [CHR 0xD0, CHR 0x98, CHR 0xD0, CHR 0xBD, CHR 0xD1, CHR 0x81, CHR 0xD1, CHR 0x82, CHR 0xD1,
     CHR 0x80, CHR 0xD1, CHR 0x83, CHR 0xD0, CHR 0xBA, CHR 0xD1, CHR 0x86, CHR 0xD0, CHR 0xB8,
     CHR 0xD0, CHR 0xB8, CHR 0x20, CHR 0xD0, CHR 0xBF, CHR 0xD0, CHR 0xBE, CHR 0x20, CHR 0xD0,
     CHR 0xB2, CHR 0xD0, CHR 0xBE, CHR 0xD1, CHR 0x81, CHR 0xD1, CHR 0x81, CHR 0xD1, CHR 0x82,
     CHR 0xD0, CHR 0xB0, CHR 0xD0, CHR 0xBD, CHR 0xD0, CHR 0xBE, CHR 0xD0, CHR 0xB2, CHR 0xD0,
     CHR 0xBB, CHR 0xD0, CHR 0xB5, CHR 0xD0, CHR 0xBD, CHR 0xD0, CHR 0xB8, CHR 0xD1, CHR 0x8E,
     CHR 0x20, CHR 0xD0, CHR 0xBF, CHR 0xD0, CHR 0xB0, CHR 0xD1, CHR 0x80, CHR 0xD0, CHR 0xBE,
     CHR 0xD0, CHR 0xBB, CHR 0xD1, CHR 0x8F, CHR 0x20, CHR 0xD0, CHR 0xBE, CHR 0xD1, CHR 0x82,
     CHR 0xD0, CHR 0xBF, CHR 0xD1, CHR 0x80, CHR 0xD0, CHR 0xB0, CHR 0xD0, CHR 0xB2, CHR 0xD0,
     CHR 0xBB, CHR 0xD0, CHR 0xB5, CHR 0xD0, CHR 0xBD, CHR 0xD1, CHR 0x8B, CHR 0x20, CHR 0xD0,
     CHR 0xBD, CHR 0xD0, CHR 0xB0, CHR 0x20, CHR 0xD0, CHR 0xB2, CHR 0xD0, CHR 0xB0, CHR 0xD1,
     CHR 0x88, CHR 0x20, CHR 0x65, CHR 0x6D, CHR 0x61, CHR 0x69, CHR 0x6C]"

definition MSG_VALIDATION :: string where
  \<comment> \<open>routes.ts 302: validation error\<close>
  "MSG_VALIDATION =
    [CHR 0xD0, CHR 0x9E, CHR 0xD1, CHR 0x88, CHR 0xD0, CHR 0xB8, CHR 0xD0, CHR 0xB1, CHR 0xD0,
     CHR 0xBA, CHR 0xD0, CHR 0xB0, CHR 0x20, CHR 0xD0, CHR 0xB2, CHR 0xD0, CHR 0xB0, CHR 0xD0,
     CHR 0xBB, CHR 0xD0, CHR 0xB8, CHR 0xD0, CHR 0xB4, CHR 0xD0, CHR 0xB0, CHR 0xD1, CHR 0x86,
     CHR 0xD0, CHR 0xB8, CHR 0xD0, CHR 0xB8]"

definition MSG_CREATE_TX_FAILED :: string where
  \<comment> \<open>routes.ts 308: the transaction could not be created\<close>
  "MSG_CREATE_TX_FAILED =
    [CHR 0xD0, CHR 0x9E, CHR 0xD1, CHR 0x88, CHR 0xD0, CHR 0xB8, CHR 0xD0, CHR 0xB1, CHR 0xD0,
     CHR 0xBA, CHR 0xD0, CHR 0xB0, CHR 0x20, CHR 0xD1, CHR 0x81, CHR 0xD0, CHR 0xBE, CHR 0xD0,
     CHR 0xB7, CHR 0xD0, CHR 0xB4, CHR 0xD0, CHR 0xB0, CHR 0xD0, CHR 0xBD, CHR 0xD0, CHR 0xB8,
     CHR 0xD1, CHR 0x8F, CHR 0x20, CHR 0xD1, CHR 0x82, CHR 0xD1, CHR 0x80, CHR 0xD0, CHR 0xB0,
     CHR 0xD0, CHR 0xBD, CHR 0xD0, CHR 0xB7, CHR 0xD0, CHR 0xB0, CHR 0xD0, CHR 0xBA, CHR 0xD1,
     CHR 0x86, CHR 0xD0, CHR 0xB8, CHR 0xD0, CHR 0xB8]"

definition MSG_BAD_TX_ID :: string where
  \<comment> \<open>routes.ts 318: bad transaction ID\<close>
  "MSG_BAD_TX_ID =
    [CHR 0xD0, CHR 0x9D, CHR 0xD0, CHR 0xB5, CHR 0xD0, CHR 0xB2, CHR 0xD0, CHR 0xB5, CHR 0xD1,
     CHR 0x80, CHR 0xD0, CHR 0xBD, CHR 0xD1, CHR 0x8B, CHR 0xD0, CHR 0xB9, CHR 0x20, CHR 0x49,
     CHR 0x44, CHR 0x20, CHR 0xD1, CHR 0x82, CHR 0xD1, CHR 0x80, CHR 0xD0, CHR 0xB0, CHR 0xD0,
     CHR 0xBD, CHR 0xD0, CHR 0xB7, CHR 0xD0, CHR 0xB0, CHR 0xD0, CHR 0xBA, CHR 0xD1, CHR 0x86,
     CHR 0xD0, CHR 0xB8, CHR 0xD0, CHR 0xB8]"

definition MSG_TX_NOT_FOUND :: string where
  \<comment> \<open>routes.ts 323: transaction not found\<close>
  "MSG_TX_NOT_FOUND =
    [CHR 0xD0, CHR 0xA2, CHR 0xD1, CHR 0x80, CHR 0xD0, CHR 0xB0, CHR 0xD0, CHR 0xBD, CHR 0xD0,
     CHR 0xB7, CHR 0xD0, CHR 0xB0, CHR 0xD0, CHR 0xBA, CHR 0xD1, CHR 0x86, CHR 0xD0, CHR 0xB8,
     CHR 0xD1, CHR 0x8F, CHR 0x20, CHR 0xD0, CHR 0xBD, CHR 0xD0, CHR 0xB5, CHR 0x20, CHR 0xD0,
     CHR 0xBD, CHR 0xD0, CHR 0xB0, CHR 0xD0, CHR 0xB9, CHR 0xD0, CHR 0xB4, CHR 0xD0, CHR 0xB5,
     CHR 0xD0, CHR 0xBD, CHR 0xD0, CHR 0xB0]"

definition MSG_FORBIDDEN :: string where
  \<comment> \<open>routes.ts 327: access denied\<close>
  "MSG_FORBIDDEN =
    [CHR 0xD0, CHR 0x94, CHR 0xD0, CHR 0xBE, CHR 0xD1, CHR 0x81, CHR 0xD1, CHR 0x82, CHR 0xD1,
     CHR 0x83, CHR 0xD0, CHR 0xBF, CHR 0x20, CHR 0xD0, CHR 0xB7, CHR 0xD0, CHR 0xB0, CHR 0xD0,
     CHR 0xBF, CHR 0xD1, CHR 0x80, CHR 0xD0, CHR 0xB5, CHR 0xD1, CHR 0x89, CHR 0xD0, CHR 0xB5,
     CHR 0xD0, CHR 0xBD]"

definition MSG_NO_GOALS_RELATION :: string where
  \<comment> \<open>storage.ts 60: relation "goals" does not exist (the store's message in its Russian locale)\<close>
  "MSG_NO_GOALS_RELATION =
    [CHR 0xD0, CHR 0xBE, CHR 0xD1, CHR 0x82, CHR 0xD0, CHR 0xBD, CHR 0xD0, CHR 0xBE, CHR 0xD1,
     CHR 0x88, CHR 0xD0, CHR 0xB5, CHR 0xD0, CHR 0xBD, CHR 0xD0, CHR 0xB8, CHR 0xD0, CHR 0xB5,
     CHR 0x20, CHR 0x22, CHR 0x67, CHR 0x6F, CHR 0x61, CHR 0x6C, CHR 0x73, CHR 0x22, CHR 0x20,
     CHR 0xD0, CHR 0xBD, CHR 0xD0, CHR 0xB5, CHR 0x20, CHR 0xD1, CHR 0x81, CHR 0xD1, CHR 0x83,
     CHR 0xD1, CHR 0x89, CHR 0xD0, CHR 0xB5, CHR 0xD1, CHR 0x81, CHR 0xD1, CHR 0x82, CHR 0xD0,
     CHR 0xB2, CHR 0xD1, CHR 0x83, CHR 0xD0, CHR 0xB5, CHR 0xD1, CHR 0x82]"

definition MSG_GOALS_LOAD_FAILED :: string where
  \<comment> \<open>storage.ts 64 and routes.ts 435: the goals could not be loaded\<close>
  "MSG_GOALS_LOAD_FAILED =
    [CHR 0xD0, CHR 0x9D, CHR 0xD0, CHR 0xB5, CHR 0x20, CHR 0xD1, CHR 0x83, CHR 0xD0, CHR 0xB4,
     CHR 0xD0, CHR 0xB0, CHR 0xD0, CHR 0xBB, CHR 0xD0, CHR 0xBE, CHR 0xD1, CHR 0x81, CHR 0xD1,
     CHR 0x8C, CHR 0x20, CHR 0xD0, CHR 0xB7, CHR 0xD0, CHR 0xB0, CHR 0xD0, CHR 0xB3, CHR 0xD1,
     CHR 0x80, CHR 0xD1, CHR 0x83, CHR 0xD0, CHR 0xB7, CHR 0xD0, CHR 0xB8, CHR 0xD1, CHR 0x82,
     CHR 0xD1, CHR 0x8C, CHR 0x20, CHR 0xD1, CHR 0x86, CHR 0xD0, CHR 0xB5, CHR 0xD0, CHR 0xBB,
     CHR 0xD0, CHR 0xB8]"

definition MSG_ACTIVE_GOALS_LOAD_FAILED :: string where
  \<comment> \<open>storage.ts 143: the active goals could not be loaded\<close>
  "MSG_ACTIVE_GOALS_LOAD_FAILED =
    [CHR 0xD0, CHR 0x9D, CHR 0xD0, CHR 0xB5, CHR 0x20, CHR 0xD1, CHR 0x83, CHR 0xD0, CHR 0xB4,
     CHR 0xD0, CHR 0xB0, CHR 0xD0, CHR 0xBB, CHR 0xD0, CHR 0xBE, CHR 0xD1, CHR 0x81, CHR 0xD1,
     CHR 0x8C, CHR 0x20, CHR 0xD0, CHR 0xB7, CHR 0xD0, CHR 0xB0, CHR 0xD0, CHR 0xB3, CHR 0xD1,
     CHR 0x80, CHR 0xD1, CHR 0x83, CHR 0xD0, CHR 0xB7, CHR 0xD0, CHR 0xB8, CHR 0xD1, CHR 0x82,
     CHR 0xD1, CHR 0x8C, CHR 0x20, CHR 0xD0, CHR 0xB0, CHR 0xD0, CHR 0xBA, CHR 0xD1, CHR 0x82,
     CHR 0xD0, CHR 0xB8, CHR 0xD0, CHR 0xB2, CHR 0xD0, CHR 0xBD, CHR 0xD1, CHR 0x8B, CHR 0xD0,
     CHR 0xB5, CHR 0x20, CHR 0xD1, CHR 0x86, CHR 0xD0, CHR 0xB5, CHR 0xD0, CHR 0xBB, CHR 0xD0,
     CHR 0xB8]"

definition MSG_GOAL_PROGRESS_FAILED :: string where
  \<comment> \<open>storage.ts 118: the goal's progress could not be updated\<close>
  "MSG_GOAL_PROGRESS_FAILED =
    [CHR 0xD0, CHR 0x9D, CHR 0xD0, CHR 0xB5, CHR 0x20, CHR 0xD1, CHR 0x83, CHR 0xD0, CHR 0xB4,
     CHR 0xD0, CHR 0xB0, CHR 0xD0, CHR 0xBB, CHR 0xD0, CHR 0xBE, CHR 0xD1, CHR 0x81, CHR 0xD1,
     CHR 0x8C, CHR 0x20, CHR 0xD0, CHR 0xBE, CHR 0xD0, CHR 0xB1, CHR 0xD0, CHR 0xBD, CHR 0xD0,
     CHR 0xBE, CHR 0xD0, CHR 0xB2, CHR 0xD0, CHR 0xB8, CHR 0xD1, CHR 0x82, CHR 0xD1, CHR 0x8C,
     CHR 0x20, CHR 0xD0, CHR 0xBF, CHR 0xD1, CHR 0x80, CHR 0xD0, CHR 0xBE, CHR 0xD0, CHR 0xB3,
     CHR 0xD1, CHR 0x80, CHR 0xD0, CHR 0xB5, CHR 0xD1, CHR 0x81, CHR 0xD1, CHR 0x81, CHR 0x20,
     CHR 0xD1, CHR 0x86, CHR 0xD0, CHR 0xB5, CHR 0xD0, CHR 0xBB, CHR 0xD0, CHR 0xB8]"

fun startsWith :: "string \<Rightarrow> string \<Rightarrow> bool" where
  "startsWith s [] = True"
| "startsWith [] (p # ps) = False"
| "startsWith (c # cs) (p # ps) = (c = p \<and> startsWith cs ps)"

fun js_includes :: "string \<Rightarrow> string \<Rightarrow> bool" where
  "js_includes [] pat = (pat = [])"
| "js_includes (c # cs) pat = (startsWith (c # cs) pat \<or> js_includes cs pat)"

section \<open>Numbers\<close>

text \<open>
  A JavaScript number is an IEEE 754 binary64 value. It is modelled by its value: a
  rational, one of the two infinities, or NaN. An arithmetic operation on finite numbers
  is the exact operation on the rationals followed by \<open>fl\<close>, the rounding to the nearest
  binary64 value with ties going to the even significand, which overflows to an infinity
  from 2^1024 on. The sign of a zero is not kept: the responses are JSON, which prints
  both zeros as 0, and the divisors in this code are a literal or a sum that starts from
  the literal 0, which is never the negative zero.
\<close>

fun bitLength :: "nat \<Rightarrow> nat" where
  \<comment> \<open>the number of binary digits\<close>
  "bitLength n = (if n = 0 then 0 else Suc (bitLength (n div 2)))"

declare bitLength.simps [simp del]

definition ilog2 :: "rat \<Rightarrow> int" where
  \<comment> \<open>for \<open>0 < y\<close>, the exponent \<open>e\<close> with \<open>2^e \<le> y < 2^(e+1)\<close>\<close>
  "ilog2 y = (if 1 \<le> y then int (bitLength (nat \<lfloor>y\<rfloor>)) - 1
              else - int (bitLength (nat (\<lceil>1 / y\<rceil> - 1))))"

definition roundTiesToEven :: "rat \<Rightarrow> int" where
  "roundTiesToEven y =
     (let f = \<lfloor>y\<rfloor>; d = y - of_int f
      in if d < 1 / 2 then f else if 1 / 2 < d then f + 1 else if even f then f else f + 1)"

definition round_double :: "rat \<Rightarrow> rat" where
  \<comment> \<open>the nearest multiple of \<open>2^q\<close>, where \<open>q\<close> leaves a significand of 53 bits and is
      at least -1074, the exponent of the subnormal numbers\<close>
  "round_double x =
     (if x = 0 then 0
      else (let q = max (ilog2 \<bar>x\<bar> - 52) (- 1074)
            in sgn x * of_int (roundTiesToEven (\<bar>x\<bar> / 2 powi q)) * 2 powi q))"

definition MIN_VALUE :: rat where
  \<comment> \<open>\<^verbatim>\<open>Number.MIN_VALUE\<close>, the spacing of the smallest numbers\<close>
  "MIN_VALUE = 2 powi (- 1074)"

datatype number = Finite rat | PlusInfinity | MinusInfinity | NaN

definition fl :: "rat \<Rightarrow> number" where
  "fl x = (let r = round_double x
           in if r = 0 then Finite 0
              else if 1024 \<le> ilog2 \<bar>r\<bar> then (if 0 < r then PlusInfinity else MinusInfinity)
              else Finite r)"

fun fneg :: "number \<Rightarrow> number" where
  "fneg (Finite a) = Finite (- a)"
| "fneg PlusInfinity = MinusInfinity"
| "fneg MinusInfinity = PlusInfinity"
| "fneg NaN = NaN"

fun fadd :: "number \<Rightarrow> number \<Rightarrow> number" where
  \<comment> \<open>\<^verbatim>\<open>x + y\<close>\<close>
  "fadd (Finite a) (Finite b) = fl (a + b)"
| "fadd NaN y = NaN"
| "fadd x NaN = NaN"
| "fadd PlusInfinity MinusInfinity = NaN"
| "fadd MinusInfinity PlusInfinity = NaN"
| "fadd PlusInfinity y = PlusInfinity"
| "fadd x PlusInfinity = PlusInfinity"
| "fadd MinusInfinity y = MinusInfinity"
| "fadd x MinusInfinity = MinusInfinity"

definition fsub :: "number \<Rightarrow> number \<Rightarrow> number" where
  \<comment> \<open>\<^verbatim>\<open>x - y\<close>\<close>
  "fsub x y = fadd x (fneg y)"

fun sign_of :: "number \<Rightarrow> int" where
  "sign_of (Finite a) = (if 0 < a then 1 else if a < 0 then - 1 else 0)"
| "sign_of PlusInfinity = 1"
| "sign_of MinusInfinity = - 1"
| "sign_of NaN = 0"

definition signed_infinity :: "int \<Rightarrow> number" where
  "signed_infinity s = (if s = 0 then NaN else if 0 < s then PlusInfinity else MinusInfinity)"

fun fmul :: "number \<Rightarrow> number \<Rightarrow> number" where
  \<comment> \<open>\<^verbatim>\<open>x * y\<close>; an infinity times zero is NaN\<close>
  "fmul (Finite a) (Finite b) = fl (a * b)"
| "fmul NaN y = NaN"
| "fmul x NaN = NaN"
| "fmul x y = signed_infinity (sign_of x * sign_of y)"

fun fdiv :: "number \<Rightarrow> number \<Rightarrow> number" where
  \<comment> \<open>\<^verbatim>\<open>x / y\<close>; a zero divisor is the positive zero\<close>
  "fdiv (Finite a) (Finite b) =
     (if b = 0 then signed_infinity (sign_of (Finite a)) else fl (a / b))"
| "fdiv NaN y = NaN"
| "fdiv x NaN = NaN"
| "fdiv (Finite a) y = Finite 0"
| "fdiv x (Finite b) = signed_infinity (sign_of x * (if b < 0 then - 1 else 1))"
| "fdiv x y = NaN"

fun num_less :: "number \<Rightarrow> number \<Rightarrow> bool" where
  \<comment> \<open>\<^verbatim>\<open>x < y\<close>, false when either side is NaN\<close>
  "num_less (Finite a) (Finite b) = (a < b)"
| "num_less NaN y = False"
| "num_less x NaN = False"
| "num_less MinusInfinity MinusInfinity = False"
| "num_less MinusInfinity y = True"
| "num_less x PlusInfinity = (x \<noteq> PlusInfinity)"
| "num_less x y = False"

fun positive :: "number \<Rightarrow> bool" where
  \<comment> \<open>\<^verbatim>\<open>x > 0\<close>\<close>
  "positive (Finite a) = (0 < a)"
| "positive PlusInfinity = True"
| "positive n = False"

fun Math_round :: "number \<Rightarrow> number" where
  \<comment> \<open>\<^verbatim>\<open>Math.round\<close>: the nearest integer, a tie going up; the integer is a binary64
      value whenever the argument is one\<close>
  "Math_round (Finite a) = Finite (of_int \<lfloor>a + 1 / 2\<rfloor>)"
| "Math_round n = n"

definition Math_max :: "number \<Rightarrow> number \<Rightarrow> number" where
  "Math_max x y = (if x = NaN \<or> y = NaN then NaN else if num_less x y then y else x)"

fun parseFloat :: "number \<Rightarrow> number" where
  \<comment> \<open>\<^verbatim>\<open>parseFloat\<close> of what a numeric column returns: the decimal text of its
      value, or NaN or an infinity\<close>
  "parseFloat (Finite d) = fl d"
| "parseFloat n = n"

definition or_zero :: "number \<Rightarrow> number" where
  \<comment> \<open>\<^verbatim>\<open>x || 0\<close> for a number \<open>x\<close>: zero and NaN are falsy\<close>
  "or_zero x = (if x = NaN \<or> x = Finite 0 then Finite 0 else x)"

fun insert_sorted :: "('a \<Rightarrow> 'a \<Rightarrow> number) \<Rightarrow> 'a \<Rightarrow> 'a list \<Rightarrow> 'a list" where
  "insert_sorted comparefn x [] = [x]"
| "insert_sorted comparefn x (y # ys) =
     (if positive (comparefn x y) then y # insert_sorted comparefn x ys else x # y # ys)"

definition Array_sort :: "('a \<Rightarrow> 'a \<Rightarrow> number) \<Rightarrow> 'a list \<Rightarrow> 'a list" where
  \<comment> \<open>\<^verbatim>\<open>Array.prototype.sort\<close> is stable; for a comparator that orders the elements
      consistently it returns the one stable sorted arrangement, which a stable insertion
      sort computes. With an inconsistent comparator (one that returns NaN for unequal
      elements) the order is implementation-defined and outside the model.\<close>
  "Array_sort comparefn xs = foldr (insert_sorted comparefn) xs []"

section \<open>Dates\<close>

text \<open>
  A timestamp is kept as its calendar fields: year, month (1 to 12), day of the month and
  millisecond of the day. The lexicographic order on the tuple is the order in time.
  The server's clock and the store read the calendar fields in one time zone.
\<close>

type_synonym timestamp = "int \<times> int \<times> int \<times> int"

definition year_of :: "timestamp \<Rightarrow> int" where
  \<comment> \<open>\<^verbatim>\<open>EXTRACT(YEAR FROM ts)\<close>, \<^verbatim>\<open>getFullYear()\<close>\<close>
  "year_of ts = fst ts"

definition month_of :: "timestamp \<Rightarrow> int" where
  \<comment> \<open>\<^verbatim>\<open>EXTRACT(MONTH FROM ts)\<close>, \<^verbatim>\<open>getMonth() + 1\<close>\<close>
  "month_of ts = fst (snd ts)"

definition date_of :: "timestamp \<Rightarrow> int \<times> int \<times> int" where
  \<comment> \<open>\<^verbatim>\<open>ts::date\<close>, \<^verbatim>\<open>toISOString().split('T')[0]\<close>: the day, without the time\<close>
  "date_of ts = (fst ts, fst (snd ts), fst (snd (snd ts)))"

section \<open>The store\<close>

datatype js_exn = Error string | Thrown

datatype relation = Users | Transactions | Goals

record user =
  u_id :: int
  u_email :: string
  u_password :: string
  u_firstName :: string
  u_lastName :: string
  u_createdAt :: timestamp
  u_updatedAt :: timestamp

record transaction =
  t_id :: int
  t_userId :: int
  t_type :: string
  t_amount :: rat
  t_category :: string
  t_description :: "string option"
  t_date :: timestamp
  t_ecoImpact :: "number option"
  t_createdAt :: timestamp

record goal =
  g_id :: int
  g_userId :: int
  g_name :: string
  g_description :: "string option"
  g_targetAmount :: rat
  g_currentSaved :: rat
  g_targetDate :: "timestamp option"
  g_completed :: bool
  g_createdAt :: timestamp
  g_updatedAt :: timestamp

text \<open>
  The relational store: the rows of each relation, the serial that numbers inserted
  transactions, and for each relation the exception every statement on it throws, if any
  (a relation that was never migrated, a lost connection).
\<close>

text \<open>
  The columns \<^verbatim>\<open>amount\<close>, \<^verbatim>\<open>targetAmount\<close> and \<^verbatim>\<open>currentSaved\<close> hold decimals, on which
  the store computes exactly. The column \<^verbatim>\<open>ecoImpact\<close> holds the number the server
  computed and inserted, or null.
\<close>

record database =
  users :: "user list"
  transactions :: "transaction list"
  goals :: "goal list"
  tx_serial :: int
  failing :: "relation \<Rightarrow> js_exn option"

definition run_query :: "database \<Rightarrow> relation \<Rightarrow> 'a \<Rightarrow> js_exn + 'a" where
  "run_query db r result = (case failing db r of Some e \<Rightarrow> Inl e | None \<Rightarrow> Inr result)"

definition orderBy_desc :: "('r \<Rightarrow> timestamp) \<Rightarrow> 'r list \<Rightarrow> 'r list" where
  \<comment> \<open>\<^verbatim>\<open>.orderBy(desc(column))\<close>; the store leaves the order of rows with equal keys
      open, and the model fixes one\<close>
  "orderBy_desc column rows = rev (sort_key column rows)"

section \<open>Data access (storage.ts)\<close>

definition getUserByEmail :: "database \<Rightarrow> string \<Rightarrow> js_exn + user option" where
  "getUserByEmail db email = run_query db Users (find (\<lambda>u. u_email u = email) (users db))"

definition getUserTransactions :: "database \<Rightarrow> int \<Rightarrow> js_exn + transaction list" where
  "getUserTransactions db userId =
     run_query db Transactions
       (orderBy_desc t_createdAt (filter (\<lambda>t. t_userId t = userId) (transactions db)))"

record insert_transaction =
  i_userId :: int
  i_type :: string
  i_amount :: rat
  i_category :: string
  i_description :: "string option"
  i_date :: timestamp
  i_ecoImpact :: number

definition createTransaction ::
  "database \<Rightarrow> insert_transaction \<Rightarrow> timestamp \<Rightarrow> js_exn + transaction \<times> database" where
  \<comment> \<open>the store gives the row its id (the serial) and its creation time\<close>
  "createTransaction db insertTransaction now =
     (let row = \<lparr>t_id = tx_serial db,
                 t_userId = i_userId insertTransaction,
                 t_type = i_type insertTransaction,
                 t_amount = i_amount insertTransaction,
                 t_category = i_category insertTransaction,
                 t_description = i_description insertTransaction,
                 t_date = i_date insertTransaction,
                 t_ecoImpact = Some (i_ecoImpact insertTransaction),
                 t_createdAt = now\<rparr>
      in run_query db Transactions
           (row, db\<lparr>transactions := transactions db @ [row], tx_serial := tx_serial db + 1\<rparr>))"

definition getTransaction :: "database \<Rightarrow> int \<Rightarrow> js_exn + transaction option" where
  "getTransaction db txId =
     run_query db Transactions (find (\<lambda>t. t_id t = txId) (transactions db))"

definition deleteTransaction :: "database \<Rightarrow> int \<Rightarrow> js_exn + database" where
  "deleteTransaction db txId =
     run_query db Transactions
       (db\<lparr>transactions := filter (\<lambda>t. t_id t \<noteq> txId) (transactions db)\<rparr>)"

definition getUserGoals :: "database \<Rightarrow> int \<Rightarrow> js_exn + goal list" where
  "getUserGoals db userId =
     (case run_query db Goals
             (orderBy_desc g_createdAt (filter (\<lambda>g. g_userId g = userId) (goals db))) of
        Inr rows \<Rightarrow> Inr rows
      | Inl error \<Rightarrow>
          (case error of
             Error message \<Rightarrow>
               if js_includes message MSG_NO_GOALS_RELATION then Inr []
               else Inl (Error MSG_GOALS_LOAD_FAILED)
           | Thrown \<Rightarrow> Inl (Error MSG_GOALS_LOAD_FAILED)))"

definition updateGoalProgress ::
  "database \<Rightarrow> int option \<Rightarrow> rat \<Rightarrow> timestamp \<Rightarrow> js_exn + goal option \<times> database" where
  \<comment> \<open>\<^verbatim>\<open>goalId\<close> is \<^const>\<open>None\<close> for NaN, which the store rejects for an integer column.
      The row is found by its id alone.\<close>
  "updateGoalProgress db goalId amount now =
     (case goalId of
        None \<Rightarrow> Inl (Error MSG_GOAL_PROGRESS_FAILED)
      | Some gid \<Rightarrow>
          (let updated = map (\<lambda>g. if g_id g = gid
                                   then g\<lparr>g_currentSaved := g_currentSaved g + amount,
                                          g_updatedAt := now\<rparr>
                                   else g) (goals db)
           in case run_query db Goals
                     (find (\<lambda>g. g_id g = gid) updated, db\<lparr>goals := updated\<rparr>) of
                Inr r \<Rightarrow> Inr r
              | Inl error \<Rightarrow> Inl (Error MSG_GOAL_PROGRESS_FAILED)))"

definition getActiveGoals :: "database \<Rightarrow> int \<Rightarrow> timestamp \<Rightarrow> js_exn + goal list" where
  "getActiveGoals db userId today =
     (let todayString = date_of today
      in case run_query db Goals
                (orderBy_desc g_createdAt
                   (filter (\<lambda>g. g_userId g = userId
                                \<and> g_targetAmount g > g_currentSaved g
                                \<and> (case g_targetDate g of
                                      None \<Rightarrow> True
                                    | Some targetDate \<Rightarrow> date_of targetDate \<ge> todayString))
                      (goals db))) of
           Inr rows \<Rightarrow> Inr rows
         | Inl error \<Rightarrow> Inl (Error MSG_ACTIVE_GOALS_LOAD_FAILED))"

subsection \<open>Statistics\<close>

definition ecoRating :: "rat \<Rightarrow> string" where
  \<comment> \<open>the chain at storage.ts 260-266, 302-308 and 359-365\<close>
  "ecoRating totalCo2 =
     (if totalCo2 < 50 then ''A+''
      else if totalCo2 < 100 then ''A''
      else if totalCo2 < 200 then ''B+''
      else if totalCo2 < 300 then ''B''
      else if totalCo2 < 500 then ''C+''
      else ''C'')"

fun rating :: "number \<Rightarrow> string" where
  \<comment> \<open>the chain on a total that need not be finite: minus infinity is below 50, and
      plus infinity and NaN fail every comparison\<close>
  "rating (Finite totalCo2) = ecoRating totalCo2"
| "rating MinusInfinity = ''A+''"
| "rating n = ''C''"

definition reduce_sum :: "('r \<Rightarrow> number) \<Rightarrow> 'r list \<Rightarrow> number" where
  \<comment> \<open>\<^verbatim>\<open>rows.reduce((sum, t) => sum + f(t), 0)\<close>\<close>
  "reduce_sum f rows = foldl (\<lambda>sum t. fadd sum (f t)) (Finite 0) rows"

definition amount_of :: "transaction \<Rightarrow> number" where
  \<comment> \<open>\<^verbatim>\<open>parseFloat(t.amount)\<close>\<close>
  "amount_of t = parseFloat (Finite (t_amount t))"

definition ecoImpact_or_zero :: "transaction \<Rightarrow> number" where
  \<comment> \<open>\<^verbatim>\<open>parseFloat(t.ecoImpact || '0')\<close>: a null column counts as 0\<close>
  "ecoImpact_or_zero t =
     (case t_ecoImpact t of None \<Rightarrow> parseFloat (Finite 0) | Some e \<Rightarrow> parseFloat e)"

definition monthlyTransactions :: "database \<Rightarrow> int \<Rightarrow> int \<Rightarrow> int \<Rightarrow> transaction list" where
  "monthlyTransactions db userId month year =
     filter (\<lambda>t. t_userId t = userId \<and> month_of (t_date t) = month \<and> year_of (t_date t) = year)
       (transactions db)"

record dashboard_stats =
  totalBalance :: number
  monthlyIncome :: number
  monthlyExpenses :: number
  ds_ecoRating :: string
  co2Reduction :: number
  totalTransactions :: nat

definition getDashboardStats :: "database \<Rightarrow> int \<Rightarrow> timestamp \<Rightarrow> js_exn + dashboard_stats" where
  "getDashboardStats db userId currentDate =
     (let currentMonth = month_of currentDate;
          currentYear = year_of currentDate;
          monthly = monthlyTransactions db userId currentMonth currentYear;
          income = reduce_sum amount_of (filter (\<lambda>t. t_type t = ''income'') monthly);
          expenses = reduce_sum amount_of (filter (\<lambda>t. t_type t = ''expense'') monthly);
          totalCo2 = reduce_sum ecoImpact_or_zero monthly
      in run_query db Transactions
           \<lparr>totalBalance = fsub income expenses,
            monthlyIncome = income,
            monthlyExpenses = expenses,
            ds_ecoRating = rating totalCo2,
            co2Reduction =
              Math_max (Finite 0)
                (Math_round
                   (fmul (fdiv (fsub (Finite 500) totalCo2) (Finite 500)) (Finite 100))),
            totalTransactions = length monthly\<rparr>)"


fun add_to :: "(string \<times> number) list \<Rightarrow> string \<Rightarrow> number \<Rightarrow> (string \<times> number) list" where
  \<comment> \<open>\<^verbatim>\<open>acc[k] = (acc[k] || 0) + v\<close>, for a label \<open>k\<close> that is not inherited\<close>
  "add_to [] k v = [(k, fadd (Finite 0) v)]"
| "add_to ((k', a) # acc) k v =
     (if k' = k then (k', fadd (or_zero a) v) # acc else (k', a) # add_to acc k v)"

definition digits_value :: "string \<Rightarrow> nat" where
  "digits_value s = foldl (\<lambda>n c. 10 * n + (of_char c - 48)) 0 s"

definition isArrayIndex :: "string \<Rightarrow> bool" where
  \<comment> \<open>a canonical numeric string of an integer from 0 to 2^32 - 2\<close>
  "isArrayIndex s =
     (s \<noteq> [] \<and> list_all (\<lambda>c. c \<in> set ''0123456789'') s
      \<and> (s = ''0'' \<or> take 1 s \<noteq> ''0'') \<and> digits_value s < 2 ^ 32 - 1)"

definition Object_entries :: "(string \<times> 'v) list \<Rightarrow> (string \<times> 'v) list" where
  "Object_entries obj =
     sort_key (\<lambda>e. digits_value (fst e)) (filter (\<lambda>e. isArrayIndex (fst e)) obj)
     @ filter (\<lambda>e. \<not> isArrayIndex (fst e)) obj"

record top_category =
  tc_category :: string
  tc_amount :: number
  tc_percentage :: number

record monthly_report =
  mr_month :: int
  mr_year :: int
  totalIncome :: number
  totalExpenses :: number
  topCategories :: "top_category list"
  mr_totalCo2 :: number
  mr_rating :: string

definition expensesByCategory :: "transaction list \<Rightarrow> (string \<times> number) list" where
  \<comment> \<open>the reduce at storage.ts 342-345, over the expenses of the month\<close>
  "expensesByCategory rows = foldl (\<lambda>acc t. add_to acc (t_category t) (amount_of t)) [] rows"

definition category_entry :: "number \<Rightarrow> string \<times> number \<Rightarrow> top_category" where
  \<comment> \<open>the callback of \<^verbatim>\<open>map\<close> at storage.ts 348-352\<close>
  "category_entry expenses e =
     (case e of (category, amount) \<Rightarrow>
        \<lparr>tc_category = category,
         tc_amount = amount,
         tc_percentage = Math_round (fmul (fdiv amount expenses) (Finite 100))\<rparr>)"

definition by_amount_desc :: "top_category \<Rightarrow> top_category \<Rightarrow> number" where
  \<comment> \<open>the comparator \<^verbatim>\<open>(a, b) => b.amount - a.amount\<close>\<close>
  "by_amount_desc a b = fsub (tc_amount b) (tc_amount a)"

definition getMonthlyReport :: "database \<Rightarrow> int \<Rightarrow> int \<Rightarrow> int \<Rightarrow> js_exn + monthly_report" where
  \<comment> \<open>The constant list of recommendations is left out.\<close>
  "getMonthlyReport db userId month year =
     (let monthly = monthlyTransactions db userId month year;
          income = reduce_sum amount_of (filter (\<lambda>t. t_type t = ''income'') monthly);
          expenses = reduce_sum amount_of (filter (\<lambda>t. t_type t = ''expense'') monthly);
          byCategory = expensesByCategory (filter (\<lambda>t. t_type t = ''expense'') monthly);
          top_entries =
            take 6
              (Array_sort by_amount_desc
                 (map (category_entry expenses) (Object_entries byCategory)));
          totalCo2 = reduce_sum ecoImpact_or_zero monthly
      in run_query db Transactions
           \<lparr>mr_month = month,
            mr_year = year,
            totalIncome = income,
            totalExpenses = expenses,
            topCategories = top_entries,
            mr_totalCo2 = totalCo2,
            mr_rating = rating totalCo2\<rparr>)"

section \<open>Routes (routes.ts)\<close>

text \<open>
  A handler returns the response it sends: the status (200 where the code sets none) and
  the body. A handler that writes to the store also returns the store it leaves. The
  caller is the \<^verbatim>\<open>userId\<close> that \<^verbatim>\<open>authenticateToken\<close> put into \<^verbatim>\<open>req.user\<close>.
\<close>

datatype 'a reply =
    Json 'a
  | Message string
  | ValidationFailed string "string list"
  | Failed string "string option"
  | NoBody

record 'a response =
  status :: nat
  body :: "'a reply"

text \<open>
  The validation schemas are declared outside these sources, so a handler takes the
  outcome of \<^verbatim>\<open>schema.parse\<close>: the validated data, or the \<^verbatim>\<open>ZodError\<close> with the
  message of its first issue and of the others.
\<close>

datatype zod_error = ZodError string "string list"

record login_data =
  l_email :: string
  l_password :: string

record public_user =
  pu_id :: int
  pu_email :: string
  pu_firstName :: string
  pu_lastName :: string

record session =
  token :: string
  s_user :: public_user

definition login ::
  "(string \<Rightarrow> string \<Rightarrow> bool) \<Rightarrow> (int \<Rightarrow> string \<Rightarrow> string) \<Rightarrow> database
     \<Rightarrow> zod_error + login_data \<Rightarrow> session response" where
  \<comment> \<open>\<^verbatim>\<open>compare\<close> is \<^verbatim>\<open>bcrypt.compare\<close>, \<^verbatim>\<open>sign\<close> is \<^verbatim>\<open>jwt.sign\<close> of
      the user's id and e-mail\<close>
  "login compare sign db parsed =
     (case parsed of
        Inl (ZodError message others) \<Rightarrow> \<lparr>status = 400, body = Message message\<rparr>
      | Inr validatedData \<Rightarrow>
          (case getUserByEmail db (l_email validatedData) of
             Inl error \<Rightarrow> \<lparr>status = 500, body = Message MSG_SERVER_ERROR\<rparr>
           | Inr None \<Rightarrow> \<lparr>status = 401, body = Message MSG_BAD_CREDENTIALS\<rparr>
           | Inr (Some user) \<Rightarrow>
               if \<not> compare (l_password validatedData) (u_password user)
               then \<lparr>status = 401, body = Message MSG_BAD_CREDENTIALS\<rparr>
               else \<lparr>status = 200,
                     body = Json \<lparr>token = sign (u_id user) (u_email user),
                                  s_user = \<lparr>pu_id = u_id user,
                                            pu_email = u_email user,
                                            pu_firstName = u_firstName user,
                                            pu_lastName = u_lastName user\<rparr>\<rparr>\<rparr>))"

definition forgot_password ::
  "(string \<Rightarrow> js_exn + bool) \<Rightarrow> database \<Rightarrow> string \<Rightarrow> unit response" where
  \<comment> \<open>\<^verbatim>\<open>sendPasswordResetEmail\<close> is the e-mail service: it reports whether the
      message was sent, or throws\<close>
  "forgot_password sendPasswordResetEmail db email =
     (case getUserByEmail db email of
        Inl error \<Rightarrow> \<lparr>status = 500, body = Message MSG_SERVER_ERROR\<rparr>
      | Inr None \<Rightarrow> \<lparr>status = 404, body = Message MSG_USER_NOT_FOUND\<rparr>
      | Inr (Some user) \<Rightarrow>
          (case sendPasswordResetEmail email of
             Inl error \<Rightarrow> \<lparr>status = 500, body = Message MSG_SERVER_ERROR\<rparr>
           | Inr emailSent \<Rightarrow>
               if emailSent then \<lparr>status = 200, body = Message MSG_RESET_SENT\<rparr>
               else \<lparr>status = 200, body = Message MSG_RESET_SENT\<rparr>))"

definition get_transactions :: "database \<Rightarrow> int \<Rightarrow> transaction list response" where
  "get_transactions db caller =
     (case getUserTransactions db caller of
        Inr rows \<Rightarrow> \<lparr>status = 200, body = Json rows\<rparr>
      | Inl error \<Rightarrow> \<lparr>status = 500, body = Message MSG_SERVER_ERROR\<rparr>)"

record tx_data =
  v_type :: string
  v_amount :: rat
  v_category :: string
  v_description :: "string option"
  v_date :: timestamp

text \<open>
  \<^verbatim>\<open>req.body.goalId\<close> as the handler uses it: a falsy value (absent, null, 0, the empty
  string), or a truthy one with what \<^verbatim>\<open>parseInt\<close> makes of it (\<^const>\<open>None\<close> for NaN).
\<close>

datatype goalId_field = Falsy | Truthy "int option"

definition ecoImpact_of :: "string \<Rightarrow> rat \<Rightarrow> number" where
  \<comment> \<open>the switch at routes.ts 266-281; a literal such as \<^verbatim>\<open>0.2\<close> is the binary64 value
      nearest to it\<close>
  "ecoImpact_of category amountNumber =
     (if category = ''transport'' then fmul (Finite amountNumber) (fl (2 / 10))
      else if category = ''food'' then fmul (Finite amountNumber) (fl (15 / 100))
      else if category = ''shopping'' then fmul (Finite amountNumber) (fl (1 / 10))
      else if category = ''utilities'' then fmul (Finite amountNumber) (fl (25 / 100))
      else fmul (Finite amountNumber) (fl (5 / 100)))"

definition create_failed :: "js_exn \<Rightarrow> transaction response" where
  \<comment> \<open>the handler's 500 response, with \<^verbatim>\<open>error.message\<close>\<close>
  "create_failed error =
     \<lparr>status = 500,
      body = Failed MSG_CREATE_TX_FAILED (case error of Error m \<Rightarrow> Some m | Thrown \<Rightarrow> None)\<rparr>"

definition post_transactions ::
  "database \<Rightarrow> timestamp \<Rightarrow> int \<Rightarrow> zod_error + tx_data \<Rightarrow> goalId_field
     \<Rightarrow> transaction response \<times> database" where
  \<comment> \<open>\<open>v_amount\<close> is \<^verbatim>\<open>amountNumber\<close>: the finite number that the validated amount
      is, or parses to\<close>
  "post_transactions db now caller parsed goalId =
     (case parsed of
        Inl (ZodError message others) \<Rightarrow>
          (\<lparr>status = 400, body = ValidationFailed MSG_VALIDATION (message # others)\<rparr>, db)
      | Inr validatedData \<Rightarrow>
          (let amountNumber = v_amount validatedData;
               ecoImpact = ecoImpact_of (v_category validatedData) amountNumber
           in case createTransaction db
                     \<lparr>i_userId = caller,
                      i_type = v_type validatedData,
                      i_amount = amountNumber,
                      i_category = v_category validatedData,
                      i_description = v_description validatedData,
                      i_date = v_date validatedData,
                      i_ecoImpact = ecoImpact\<rparr> now of
                Inl error \<Rightarrow> (create_failed error, db)
              | Inr (transaction, db1) \<Rightarrow>
                  (case goalId of
                     Falsy \<Rightarrow> (\<lparr>status = 200, body = Json transaction\<rparr>, db1)
                   | Truthy parsedGoalId \<Rightarrow>
                       if v_type validatedData = ''income''
                       then (case updateGoalProgress db1 parsedGoalId amountNumber now of
                               Inl error \<Rightarrow> (create_failed error, db1)
                             | Inr (g, db2) \<Rightarrow>
                                 (\<lparr>status = 200, body = Json transaction\<rparr>, db2))
                       else (\<lparr>status = 200, body = Json transaction\<rparr>, db1))))"

definition delete_transaction ::
  "database \<Rightarrow> int \<Rightarrow> int option \<Rightarrow> unit response \<times> database" where
  \<comment> \<open>\<^verbatim>\<open>idParam\<close> is \<^verbatim>\<open>parseInt(req.params.id)\<close>, \<^const>\<open>None\<close> for NaN\<close>
  "delete_transaction db caller idParam =
     (case idParam of
        None \<Rightarrow> (\<lparr>status = 400, body = Message MSG_BAD_TX_ID\<rparr>, db)
      | Some transactionId \<Rightarrow>
          (case getTransaction db transactionId of
             Inl error \<Rightarrow> (\<lparr>status = 500, body = Message MSG_SERVER_ERROR\<rparr>, db)
           | Inr None \<Rightarrow> (\<lparr>status = 404, body = Message MSG_TX_NOT_FOUND\<rparr>, db)
           | Inr (Some transaction) \<Rightarrow>
               if t_userId transaction \<noteq> caller
               then (\<lparr>status = 403, body = Message MSG_FORBIDDEN\<rparr>, db)
               else (case deleteTransaction db transactionId of
                       Inl error \<Rightarrow> (\<lparr>status = 500, body = Message MSG_SERVER_ERROR\<rparr>, db)
                     | Inr db' \<Rightarrow> (\<lparr>status = 204, body = NoBody\<rparr>, db'))))"

definition get_dashboard_stats :: "database \<Rightarrow> timestamp \<Rightarrow> int \<Rightarrow> dashboard_stats response" where
  "get_dashboard_stats db now caller =
     (case getDashboardStats db caller now of
        Inr stats \<Rightarrow> \<lparr>status = 200, body = Json stats\<rparr>
      | Inl error \<Rightarrow> \<lparr>status = 500, body = Message MSG_SERVER_ERROR\<rparr>)"

definition get_reports_monthly ::
  "database \<Rightarrow> timestamp \<Rightarrow> int \<Rightarrow> int option \<Rightarrow> int option \<Rightarrow> monthly_report response" where
  \<comment> \<open>\<^verbatim>\<open>parseInt(month) || current month\<close>: NaN and 0 fall back to the current one\<close>
  "get_reports_monthly db now caller month year =
     (let m = (case month of None \<Rightarrow> month_of now | Some v \<Rightarrow> if v = 0 then month_of now else v);
          y = (case year of None \<Rightarrow> year_of now | Some v \<Rightarrow> if v = 0 then year_of now else v)
      in case getMonthlyReport db caller m y of
           Inr monthlyData \<Rightarrow> \<lparr>status = 200, body = Json monthlyData\<rparr>
         | Inl error \<Rightarrow> \<lparr>status = 500, body = Message MSG_SERVER_ERROR\<rparr>)"

definition get_goals :: "database \<Rightarrow> int \<Rightarrow> goal list response" where
  "get_goals db caller =
     (case getUserGoals db caller of
        Inr userGoals \<Rightarrow> \<lparr>status = 200, body = Json userGoals\<rparr>
      | Inl error \<Rightarrow>
          (case error of
             Error message \<Rightarrow>
               if js_includes message MSG_GOALS_LOAD_FAILED
               then \<lparr>status = 200, body = Json []\<rparr>
               else \<lparr>status = 500, body = Message MSG_SERVER_ERROR\<rparr>
           | Thrown \<Rightarrow> \<lparr>status = 500, body = Message MSG_SERVER_ERROR\<rparr>))"

definition get_goals_active :: "database \<Rightarrow> timestamp \<Rightarrow> int \<Rightarrow> goal list response" where
  "get_goals_active db now caller =
     (case getActiveGoals db caller now of
        Inr activeGoals \<Rightarrow> \<lparr>status = 200, body = Json activeGoals\<rparr>
      | Inl error \<Rightarrow> \<lparr>status = 500, body = Message MSG_SERVER_ERROR\<rparr>)"

section \<open>Notions of the specification\<close>

definition grade_rank :: "string \<Rightarrow> nat" where
  \<comment> \<open>the order of the letter grades, the best one highest\<close>
  "grade_rank g =
     (if g = ''A+'' then 5 else if g = ''A'' then 4 else if g = ''B+'' then 3
      else if g = ''B'' then 2 else if g = ''C+'' then 1 else 0)"


fun add_up :: "number \<Rightarrow> number list \<Rightarrow> number" where
  "add_up s [] = s"
| "add_up s (x # xs) = add_up (fadd s x) xs"

definition number_sum :: "number list \<Rightarrow> number" where
  \<comment> \<open>the sum of numbers in JavaScript: added one by one, in order, from 0\<close>
  "number_sum xs = add_up (Finite 0) xs"

definition double_sum :: "rat list \<Rightarrow> number" where
  \<comment> \<open>the sum, in JavaScript, of the numbers that decimals parse to\<close>
  "double_sum ds = number_sum (map fl ds)"

fun exactly_summable :: "rat \<Rightarrow> rat list \<Rightarrow> bool" where
  \<comment> \<open>the decimals and the sums reached while adding them to \<open>s\<close> are all binary64
      values, so that no addition rounds\<close>
  "exactly_summable s [] = True"
| "exactly_summable s (d # ds) =
     (fl d = Finite d \<and> fl (s + d) = Finite (s + d) \<and> exactly_summable (s + d) ds)"

fun is_double :: "number \<Rightarrow> bool" where
  \<comment> \<open>a number other than NaN whose value, when finite, is a multiple of
      \<^const>\<open>MIN_VALUE\<close>, as every binary64 value is\<close>
  "is_double (Finite a) = (\<exists>k::int. a = of_int k * MIN_VALUE)"
| "is_double NaN = False"
| "is_double n = True"


fun is_finite :: "number \<Rightarrow> bool" where
  "is_finite (Finite a) = True"
| "is_finite n = False"


definition active :: "int \<Rightarrow> timestamp \<Rightarrow> goal \<Rightarrow> bool" where
  \<comment> \<open>an active goal of a user, in the specification's words\<close>
  "active userId today g =
     (g_userId g = userId \<and> g_currentSaved g < g_targetAmount g
      \<and> \<not> (case g_targetDate g of None \<Rightarrow> False
                                | Some targetDate \<Rightarrow> date_of targetDate < date_of today))"


section \<open>Example data\<close>

definition alice :: user where
  "alice = \<lparr>u_id = 1, u_email = ''alice@example.com'', u_password = ''hash:wonderland'',
            u_firstName = ''Alice'', u_lastName = ''A'',
            u_createdAt = (2024, 1, 1, 0), u_updatedAt = (2024, 1, 1, 0)\<rparr>"

definition bob :: user where
  "bob = \<lparr>u_id = 2, u_email = ''bob@example.com'', u_password = ''hash:builder'',
          u_firstName = ''Bob'', u_lastName = ''B'',
          u_createdAt = (2024, 1, 2, 0), u_updatedAt = (2024, 1, 2, 0)\<rparr>"

definition tx :: "int \<Rightarrow> int \<Rightarrow> string \<Rightarrow> rat \<Rightarrow> string \<Rightarrow> timestamp \<Rightarrow> rat option \<Rightarrow> transaction" where
  "tx i owner kind amount category date eco =
     \<lparr>t_id = i, t_userId = owner, t_type = kind, t_amount = amount, t_category = category,
      t_description = None, t_date = date, t_ecoImpact = map_option Finite eco,
      t_createdAt = date\<rparr>"

definition gl :: "int \<Rightarrow> int \<Rightarrow> rat \<Rightarrow> rat \<Rightarrow> timestamp option \<Rightarrow> timestamp \<Rightarrow> goal" where
  "gl i owner target saved due created =
     \<lparr>g_id = i, g_userId = owner, g_name = ''goal'', g_description = None,
      g_targetAmount = target, g_currentSaved = saved, g_targetDate = due,
      g_completed = False, g_createdAt = created, g_updatedAt = created\<rparr>"

definition no_failure :: "relation \<Rightarrow> js_exn option" where
  "no_failure r = None"

definition today0 :: timestamp where
  "today0 = (2024, 3, 15, 43200000)"

definition example_db :: database where
  \<comment> \<open>Alice has an income of 100 and an expense of 40 in March 2024, and an expense in
      February; of her goals, 2 is saved up and 3 was due the day before \<^const>\<open>today0\<close>\<close>
  "example_db =
     \<lparr>users = [alice, bob],
      transactions =
        [tx 1 1 ''income'' 100 ''salary'' (2024, 3, 5, 0) (Some 5),
         tx 2 1 ''expense'' 40 ''food'' (2024, 3, 9, 0) (Some 6),
         tx 3 2 ''expense'' 70 ''transport'' (2024, 3, 10, 0) (Some 14),
         tx 4 1 ''expense'' 30 ''food'' (2024, 2, 20, 0) None],
      goals =
        [gl 1 1 1000 0 None (2024, 1, 5, 0),
         gl 2 1 500 500 None (2024, 1, 6, 0),
         gl 3 1 300 10 (Some (2024, 3, 14, 0)) (2024, 1, 7, 0),
         gl 4 1 300 10 (Some (2024, 3, 15, 0)) (2024, 1, 8, 0),
         gl 5 2 800 0 None (2024, 1, 9, 0)],
      tx_serial = 5,
      failing = no_failure\<rparr>"


definition failing_on :: "relation \<Rightarrow> js_exn \<Rightarrow> relation \<Rightarrow> js_exn option" where
  "failing_on r e r' = (if r' = r then Some e else None)"

definition relation_missing :: "string \<Rightarrow> js_exn" where
  \<comment> \<open>the store's report that a relation does not exist, as in storage.ts 60\<close>
  "relation_missing name =
     Error (take 19 MSG_NO_GOALS_RELATION @ [CHR 0x22] @ name @ drop 25 MSG_NO_GOALS_RELATION)"

definition connection_lost :: js_exn where
  "connection_lost = Error ''Connection terminated unexpectedly''"

definition plain_compare :: "string \<Rightarrow> string \<Rightarrow> bool" where
  \<comment> \<open>a stand-in for \<^verbatim>\<open>bcrypt.compare\<close> on the example data\<close>
  "plain_compare password hash = (hash = ''hash:'' @ password)"

definition plain_sign :: "int \<Rightarrow> string \<Rightarrow> string" where
  "plain_sign userId email = ''token:'' @ email"

definition mail_sent :: "string \<Rightarrow> js_exn + bool" where
  "mail_sent email = Inr True"

definition mail_not_sent :: "string \<Rightarrow> js_exn + bool" where
  "mail_not_sent email = Inr False"

definition income50 :: tx_data where
  "income50 = \<lparr>v_type = ''income'', v_amount = 50, v_category = ''salary'',
               v_description = None, v_date = (2024, 3, 15, 0)\<rparr>"


definition nobody_login :: login_data where
  "nobody_login = \<lparr>l_email = ''nobody@example.com'', l_password = ''wonderland''\<rparr>"

definition alice_wrong_login :: login_data where
  "alice_wrong_login = \<lparr>l_email = ''alice@example.com'', l_password = ''guess''\<rparr>"

definition db_without_transactions :: database where
  "db_without_transactions =
     example_db\<lparr>failing := failing_on Transactions (relation_missing ''transactions'')\<rparr>"

definition db_without_goals :: database where
  "db_without_goals = example_db\<lparr>failing := failing_on Goals (relation_missing ''goals'')\<rparr>"

definition db_goals_unreachable :: database where
  "db_goals_unreachable = example_db\<lparr>failing := failing_on Goals connection_lost\<rparr>"


definition rounding_stats_db :: database where
  \<comment> \<open>one user in March 2024: incomes of 0.1 and 0.2, and an expense of 850 on utilities
      with the eco impact 212.5 that the server computed for it\<close>
  "rounding_stats_db =
     \<lparr>users = [alice],
      transactions =
        [tx 1 1 ''income'' (1 / 10) ''salary'' (2024, 3, 5, 0) None,
         tx 2 1 ''income'' (2 / 10) ''salary'' (2024, 3, 6, 0) None,
         tx 3 1 ''expense'' 850 ''utilities'' (2024, 3, 9, 0) (Some (425 / 2))],
      goals = [],
      tx_serial = 4,
      failing = no_failure\<rparr>"


section \<open>Properties\<close>

subsection \<open>The eco rating\<close>

text \<open>
  C4. The rating is a function of the total alone, with the steps of the specification:
  below 50 it is A+, below 100 A, below 200 B+, below 300 B, below 500 C+ and C from
  500 on; so 49 gives A+, 50 gives A, 499 gives C+ and 500 gives C. A larger total never
  gives a better grade.
\<close>

theorem ecoRating_step_function:
  "(totalCo2 < 50 \<longrightarrow> ecoRating totalCo2 = ''A+'')
   \<and> (50 \<le> totalCo2 \<and> totalCo2 < 100 \<longrightarrow> ecoRating totalCo2 = ''A'')
   \<and> (100 \<le> totalCo2 \<and> totalCo2 < 200 \<longrightarrow> ecoRating totalCo2 = ''B+'')
   \<and> (200 \<le> totalCo2 \<and> totalCo2 < 300 \<longrightarrow> ecoRating totalCo2 = ''B'')
   \<and> (300 \<le> totalCo2 \<and> totalCo2 < 500 \<longrightarrow> ecoRating totalCo2 = ''C+'')
   \<and> (500 \<le> totalCo2 \<longrightarrow> ecoRating totalCo2 = ''C'')
   \<and> ecoRating 49 = ''A+'' \<and> ecoRating 50 = ''A''
   \<and> ecoRating 499 = ''C+'' \<and> ecoRating 500 = ''C''
   \<and> (totalCo2 \<le> higher \<longrightarrow> grade_rank (ecoRating higher) \<le> grade_rank (ecoRating totalCo2))"
  by (simp add: ecoRating_def grade_rank_def)

theorem ecoRating_step_function_witness:
  "(100 \<le> (120::rat) \<and> (120::rat) < 200) \<and> ecoRating 120 = ''B+''
   \<and> (120::rat) \<le> 320 \<and> ecoRating 320 = ''C+''
   \<and> grade_rank (ecoRating 320) \<le> grade_rank (ecoRating 120)"
  using ecoRating_step_function [of 120 320] ecoRating_step_function [of 320 320]
  by (simp add: grade_rank_def)

subsection \<open>Authentication\<close>

lemma example_lookup_nobody: "getUserByEmail example_db ''nobody@example.com'' = Inr None"
  by (simp add: getUserByEmail_def run_query_def example_db_def no_failure_def alice_def bob_def)

lemma example_lookup_alice: "getUserByEmail example_db ''alice@example.com'' = Inr (Some alice)"
  by (simp add: getUserByEmail_def run_query_def example_db_def no_failure_def alice_def bob_def)

text \<open>
  C7. Take two login attempts whose bodies pass validation, one with an e-mail that no
  user has and one with the e-mail of a user and a password that does not match. Both get
  the same response: status 401 with the one message for a wrong e-mail or password.
\<close>

theorem login_failures_indistinguishable:
  assumes "getUserByEmail db (l_email unknown) = Inr None"
    and "getUserByEmail db (l_email known) = Inr (Some user)"
    and "\<not> compare (l_password known) (u_password user)"
  shows "login compare sign db (Inr unknown) = login compare sign db (Inr known)
         \<and> login compare sign db (Inr unknown)
             = \<lparr>status = 401, body = Message MSG_BAD_CREDENTIALS\<rparr>"
  using assms by (simp add: login_def)

theorem login_failures_indistinguishable_witness:
  "getUserByEmail example_db (l_email nobody_login) = Inr None
   \<and> getUserByEmail example_db (l_email alice_wrong_login) = Inr (Some alice)
   \<and> \<not> plain_compare (l_password alice_wrong_login) (u_password alice)
   \<and> login plain_compare plain_sign example_db (Inr nobody_login)
       = login plain_compare plain_sign example_db (Inr alice_wrong_login)
   \<and> login plain_compare plain_sign example_db (Inr nobody_login)
       = \<lparr>status = 401, body = Message MSG_BAD_CREDENTIALS\<rparr>"
proof -
  have a: "getUserByEmail example_db (l_email nobody_login) = Inr None"
    by (simp add: nobody_login_def example_lookup_nobody)
  have b: "getUserByEmail example_db (l_email alice_wrong_login) = Inr (Some alice)"
    by (simp add: alice_wrong_login_def example_lookup_alice)
  have c: "\<not> plain_compare (l_password alice_wrong_login) (u_password alice)"
    by (simp add: plain_compare_def alice_wrong_login_def alice_def)
  from login_failures_indistinguishable
      [of example_db nobody_login alice_wrong_login alice plain_compare plain_sign] a b c
  show ?thesis by blast
qed

text \<open>
  C2, as the claim states it, fails: for an e-mail that no user has, the handler answers
  404 with a message saying so, and for a user's e-mail it answers 200 with the message
  that instructions were sent.
\<close>

theorem forgot_password_reveals_unknown_email:
  "forgot_password mail_sent example_db ''nobody@example.com''
     = \<lparr>status = 404, body = Message MSG_USER_NOT_FOUND\<rparr>
   \<and> forgot_password mail_sent example_db ''alice@example.com''
     = \<lparr>status = 200, body = Message MSG_RESET_SENT\<rparr>
   \<and> forgot_password mail_sent example_db ''nobody@example.com''
     \<noteq> forgot_password mail_sent example_db ''alice@example.com''"
  by (simp add: forgot_password_def example_lookup_nobody example_lookup_alice mail_sent_def)

text \<open>
  C2, amended. For the e-mail of an existing user the handler returns the same success
  message with status 200 whether the e-mail service reports the message as sent or as
  not sent; for an e-mail that no user has it returns status 404 with the message that
  no such user was found.
\<close>

theorem forgot_password_responses:
  "(getUserByEmail db email = Inr (Some user) \<and> sendPasswordResetEmail email = Inr emailSent
      \<longrightarrow> forgot_password sendPasswordResetEmail db email
            = \<lparr>status = 200, body = Message MSG_RESET_SENT\<rparr>)
   \<and> (getUserByEmail db email = Inr None
      \<longrightarrow> forgot_password sendPasswordResetEmail db email
            = \<lparr>status = 404, body = Message MSG_USER_NOT_FOUND\<rparr>)"
  by (simp add: forgot_password_def)

theorem forgot_password_responses_witness:
  "getUserByEmail example_db ''alice@example.com'' = Inr (Some alice)
   \<and> mail_not_sent ''alice@example.com'' = Inr False
   \<and> forgot_password mail_not_sent example_db ''alice@example.com''
       = \<lparr>status = 200, body = Message MSG_RESET_SENT\<rparr>
   \<and> getUserByEmail example_db ''nobody@example.com'' = Inr None
   \<and> forgot_password mail_not_sent example_db ''nobody@example.com''
       = \<lparr>status = 404, body = Message MSG_USER_NOT_FOUND\<rparr>"
  using forgot_password_responses [of example_db "''alice@example.com''" alice mail_not_sent False]
    forgot_password_responses [of example_db "''nobody@example.com''" alice mail_not_sent False]
    example_lookup_alice example_lookup_nobody
  by (simp add: mail_not_sent_def)

subsection \<open>Transactions\<close>

lemma find_filter_none: "find (\<lambda>t. t_id t = i) (filter (\<lambda>t. t_id t \<noteq> i) ts) = None"
  by (induction ts) auto


text \<open>
  C8. Deleting a transaction by an id that no transaction has answers 404 and leaves the
  store as it was. Deleting a transaction that belongs to another user answers 403 and
  leaves the store as it was. Otherwise the rows with that id are removed and the answer
  is 204 with no body; after that the transaction is not found, and deleting it again
  answers 404.
\<close>

theorem delete_transaction_outcomes:
  "(getTransaction db transactionId = Inr None
      \<longrightarrow> delete_transaction db caller (Some transactionId)
            = (\<lparr>status = 404, body = Message MSG_TX_NOT_FOUND\<rparr>, db))
   \<and> (getTransaction db transactionId = Inr (Some t) \<and> t_userId t \<noteq> caller
      \<longrightarrow> delete_transaction db caller (Some transactionId)
            = (\<lparr>status = 403, body = Message MSG_FORBIDDEN\<rparr>, db))
   \<and> (getTransaction db transactionId = Inr (Some t) \<and> t_userId t = caller
      \<longrightarrow> fst (delete_transaction db caller (Some transactionId))
            = \<lparr>status = 204, body = NoBody\<rparr>
          \<and> transactions (snd (delete_transaction db caller (Some transactionId)))
            = filter (\<lambda>t. t_id t \<noteq> transactionId) (transactions db)
          \<and> getTransaction (snd (delete_transaction db caller (Some transactionId)))
               transactionId = Inr None
          \<and> fst (delete_transaction (snd (delete_transaction db caller (Some transactionId)))
                    caller (Some transactionId))
            = \<lparr>status = 404, body = Message MSG_TX_NOT_FOUND\<rparr>)"
  by (auto simp add: delete_transaction_def getTransaction_def deleteTransaction_def
      run_query_def find_filter_none split: option.splits)

lemma example_getTransaction:
  "getTransaction example_db 99 = Inr None"
  "getTransaction example_db 3 = Inr (Some (tx 3 2 ''expense'' 70 ''transport'' (2024, 3, 10, 0) (Some 14)))"
  "getTransaction example_db 2 = Inr (Some (tx 2 1 ''expense'' 40 ''food'' (2024, 3, 9, 0) (Some 6)))"
  by (simp_all add: getTransaction_def run_query_def example_db_def no_failure_def tx_def)

theorem delete_transaction_outcomes_witness:
  "getTransaction example_db 99 = Inr None
   \<and> delete_transaction example_db 1 (Some 99)
      = (\<lparr>status = 404, body = Message MSG_TX_NOT_FOUND\<rparr>, example_db)
   \<and> getTransaction example_db 3
      = Inr (Some (tx 3 2 ''expense'' 70 ''transport'' (2024, 3, 10, 0) (Some 14)))
   \<and> t_userId (tx 3 2 ''expense'' 70 ''transport'' (2024, 3, 10, 0) (Some 14)) \<noteq> 1
   \<and> delete_transaction example_db 1 (Some 3)
      = (\<lparr>status = 403, body = Message MSG_FORBIDDEN\<rparr>, example_db)
   \<and> getTransaction example_db 2
      = Inr (Some (tx 2 1 ''expense'' 40 ''food'' (2024, 3, 9, 0) (Some 6)))
   \<and> t_userId (tx 2 1 ''expense'' 40 ''food'' (2024, 3, 9, 0) (Some 6)) = 1
   \<and> fst (delete_transaction example_db 1 (Some 2)) = \<lparr>status = 204, body = NoBody\<rparr>
   \<and> getTransaction (snd (delete_transaction example_db 1 (Some 2))) 2 = Inr None"
  using delete_transaction_outcomes [where db = example_db and transactionId = 99 and caller = 1]
    delete_transaction_outcomes
      [where db = example_db and transactionId = 3 and caller = 1
         and t = "tx 3 2 ''expense'' 70 ''transport'' (2024, 3, 10, 0) (Some 14)"]
    delete_transaction_outcomes
      [where db = example_db and transactionId = 2 and caller = 1
         and t = "tx 2 1 ''expense'' 40 ''food'' (2024, 3, 9, 0) (Some 6)"]
    example_getTransaction
  by (simp add: tx_def)





text \<open>
  C1, evaluated where the code departs from it. Bob (user 2) posts an income of 50 that
  names goal 1, which belongs to Alice (user 1). The handler answers 200 and Alice's goal
  has 50 more saved: \<^const>\<open>updateGoalProgress\<close> finds the goal by its id alone, and the
  handler does not compare the goal's owner with the caller.
\<close>

theorem post_transactions_credits_foreign_goal:
  "g_userId (gl 1 1 1000 0 None (2024, 1, 5, 0)) \<noteq> 2
   \<and> find (\<lambda>g. g_id g = 1) (goals example_db) = Some (gl 1 1 1000 0 None (2024, 1, 5, 0))
   \<and> status (fst (post_transactions example_db today0 2 (Inr income50) (Truthy (Some 1)))) = 200
   \<and> find (\<lambda>g. g_id g = 1)
        (goals (snd (post_transactions example_db today0 2 (Inr income50) (Truthy (Some 1)))))
      = Some ((gl 1 1 1000 0 None (2024, 1, 5, 0))\<lparr>g_currentSaved := 50, g_updatedAt := today0\<rparr>)"
  by (simp add: post_transactions_def createTransaction_def run_query_def Let_def
      updateGoalProgress_def example_db_def no_failure_def income50_def gl_def)

subsection \<open>Listing when the store fails\<close>

lemma startsWith_refl: "startsWith s s"
  by (induction s) auto

lemma includes_self: "js_includes s s"
  by (cases s) (auto simp: startsWith_refl)

text \<open>
  C10, as the claim states it, fails on both sides. With the relation of transactions
  missing, the transaction listing answers 500. With the goals relation failing for
  another reason (a lost connection), the goal listing still answers 200 with an empty
  list.
\<close>

theorem listing_fallback_counterexample:
  "get_transactions db_without_transactions 1
     = \<lparr>status = 500, body = Message MSG_SERVER_ERROR\<rparr>
   \<and> get_goals db_goals_unreachable 1 = \<lparr>status = 200, body = Json []\<rparr>"
  apply (simp add: get_transactions_def getUserTransactions_def run_query_def
      db_without_transactions_def failing_on_def get_goals_def getUserGoals_def
      db_goals_unreachable_def connection_lost_def)
  apply (simp add: MSG_NO_GOALS_RELATION_def MSG_GOALS_LOAD_FAILED_def)
  done

text \<open>
  C10, amended. Whenever a statement on the goals relation throws, for a missing
  relation and for any other error alike, the goal listing answers 200 with an empty
  list. The transaction listing has no fallback: whenever a statement on the relation
  of transactions throws, it answers 500.
\<close>

theorem listing_on_store_errors:
  "(failing db Goals = Some e
      \<longrightarrow> get_goals db caller = \<lparr>status = 200, body = Json []\<rparr>)
   \<and> (failing db Transactions = Some e
      \<longrightarrow> get_transactions db caller = \<lparr>status = 500, body = Message MSG_SERVER_ERROR\<rparr>)"
  by (auto simp add: get_goals_def getUserGoals_def get_transactions_def
      getUserTransactions_def run_query_def includes_self split: js_exn.splits)

theorem listing_on_store_errors_witness:
  "failing db_without_goals Goals = Some (relation_missing ''goals'')
   \<and> get_goals db_without_goals 1 = \<lparr>status = 200, body = Json []\<rparr>
   \<and> failing db_goals_unreachable Goals = Some connection_lost
   \<and> get_goals db_goals_unreachable 1 = \<lparr>status = 200, body = Json []\<rparr>
   \<and> failing db_without_transactions Transactions = Some (relation_missing ''transactions'')
   \<and> get_transactions db_without_transactions 1
      = \<lparr>status = 500, body = Message MSG_SERVER_ERROR\<rparr>"
  using listing_on_store_errors [of db_without_goals "relation_missing ''goals''" 1]
    listing_on_store_errors [of db_goals_unreachable connection_lost 1]
    listing_on_store_errors [of db_without_transactions "relation_missing ''transactions''" 1]
  by (simp add: db_without_goals_def db_goals_unreachable_def db_without_transactions_def
      failing_on_def)

subsection \<open>Rounding to binary64\<close>




lemma round_double_0 [simp]: "round_double 0 = 0"
  by (simp add: round_double_def)

lemma fl_0 [simp]: "fl 0 = Finite 0"
  by (simp add: fl_def)


lemma powi_MIN_VALUE:
  assumes "- 1074 \<le> q"
  shows "(2::rat) powi q = 2 ^ nat (q + 1074) * MIN_VALUE"
proof -
  have "(2::rat) powi q = 2 powi (int (nat (q + 1074)) + (- 1074))"
    using assms by simp
  also have "\<dots> = 2 powi (int (nat (q + 1074))) * 2 powi (- 1074)"
    by (rule power_int_add) simp
  finally show ?thesis by (simp only: MIN_VALUE_def power_int_of_nat)
qed


lemma round_double_grid: "\<exists>k::int. round_double x = of_int k * MIN_VALUE"
proof (cases "x = 0")
  case True
  then show ?thesis by (intro exI [of _ 0]) simp
next
  case False
  define q where "q = max (ilog2 \<bar>x\<bar> - 52) (- 1074)"
  define m where "m = roundTiesToEven (\<bar>x\<bar> / 2 powi q)"
  have r: "round_double x = sgn x * of_int m * 2 powi q"
    using False by (simp add: round_double_def q_def m_def Let_def)
  have "- 1074 \<le> q" by (simp add: q_def)
  then have "(2::rat) powi q = 2 ^ nat (q + 1074) * MIN_VALUE"
    by (rule powi_MIN_VALUE)
  moreover have "sgn x = of_int (if 0 < x then 1 else - 1)"
    using False by (simp add: sgn_if)
  ultimately have "round_double x
      = of_int ((if 0 < x then 1 else - 1) * m * 2 ^ nat (q + 1074)) * MIN_VALUE"
    using r by simp
  then show ?thesis by blast
qed


lemma fl_not_NaN [simp]: "fl z \<noteq> NaN"
  by (simp add: fl_def Let_def)

lemma is_double_fl [simp]: "is_double (fl z)"
proof -
  have "\<exists>k::int. (0::rat) = of_int k * MIN_VALUE" by (intro exI [of _ 0]) simp
  then show ?thesis
    using round_double_grid [of z] by (simp add: fl_def Let_def)
qed



subsection \<open>Sums of numbers\<close>

lemma add_up_foldl: "add_up s xs = foldl fadd s xs"
  by (induction xs arbitrary: s) simp_all

lemma reduce_sum_number_sum: "reduce_sum f rows = number_sum (map f rows)"
  by (simp add: reduce_sum_def number_sum_def add_up_foldl foldl_map)

lemma reduce_sum_amounts: "reduce_sum amount_of rows = double_sum (map t_amount rows)"
  by (simp add: reduce_sum_number_sum double_sum_def amount_of_def [abs_def] comp_def)

lemma add_up_exact:
  "exactly_summable s ds \<Longrightarrow> add_up (Finite s) (map fl ds) = Finite (s + sum_list ds)"
  by (induction ds arbitrary: s) (simp_all add: add.assoc)

lemma double_sum_exact:
  "exactly_summable 0 ds \<Longrightarrow> double_sum ds = Finite (sum_list ds)"
  using add_up_exact [of 0 ds] by (simp add: double_sum_def number_sum_def)

subsection \<open>Dashboard statistics\<close>

text \<open>
  C6. When the store answers, the dashboard statistics are computed from the caller's
  transactions dated in the month and year of the current date, and from no others.
  The monthly income is the sum of the amounts of those of type income and the monthly
  expenses the sum of those of type expense, each added up as JavaScript numbers in the
  order of the rows; the balance is their difference; the CO2 reduction is
  max(0, round((500 - totalCo2) / 500 * 100)), computed in the same arithmetic from the
  sum of their eco impacts; and the number of transactions is their count. Where the
  amounts and the sums reached while adding them are binary64 values, as for an income of
  100 and an expense of 40, the sums and the balance are the exact ones.
\<close>

theorem dashboard_stats_of_current_month:
  assumes "failing db Transactions = None"
  shows "let current = filter (\<lambda>t. t_userId t = caller
                                   \<and> month_of (t_date t) = month_of now
                                   \<and> year_of (t_date t) = year_of now) (transactions db);
             incomes = map t_amount (filter (\<lambda>t. t_type t = ''income'') current);
             expenses = map t_amount (filter (\<lambda>t. t_type t = ''expense'') current);
             totalCo2 = number_sum
                          (map (\<lambda>t. case t_ecoImpact t of None \<Rightarrow> Finite 0
                                     | Some e \<Rightarrow> parseFloat e) current)
         in \<exists>stats. getDashboardStats db caller now = Inr stats
              \<and> get_dashboard_stats db now caller = \<lparr>status = 200, body = Json stats\<rparr>
              \<and> monthlyIncome stats = double_sum incomes
              \<and> monthlyExpenses stats = double_sum expenses
              \<and> totalBalance stats = fsub (double_sum incomes) (double_sum expenses)
              \<and> co2Reduction stats
                  = Math_max (Finite 0)
                      (Math_round
                         (fmul (fdiv (fsub (Finite 500) totalCo2) (Finite 500)) (Finite 100)))
              \<and> ds_ecoRating stats = rating totalCo2
              \<and> totalTransactions stats = length current
              \<and> (exactly_summable 0 incomes
                   \<longrightarrow> monthlyIncome stats = Finite (sum_list incomes))
              \<and> (exactly_summable 0 expenses
                   \<longrightarrow> monthlyExpenses stats = Finite (sum_list expenses))
              \<and> (exactly_summable 0 incomes \<and> exactly_summable 0 expenses
                   \<and> fl (sum_list incomes - sum_list expenses)
                       = Finite (sum_list incomes - sum_list expenses)
                   \<longrightarrow> totalBalance stats = Finite (sum_list incomes - sum_list expenses))"
proof -
  define current where "current = filter (\<lambda>t. t_userId t = caller
                                   \<and> month_of (t_date t) = month_of now
                                   \<and> year_of (t_date t) = year_of now) (transactions db)"
  define incomes where "incomes = map t_amount (filter (\<lambda>t. t_type t = ''income'') current)"
  define expenses where
    "expenses = map t_amount (filter (\<lambda>t. t_type t = ''expense'') current)"
  define totalCo2 where
    "totalCo2 = number_sum (map (\<lambda>t. case t_ecoImpact t of None \<Rightarrow> Finite 0
                                      | Some e \<Rightarrow> parseFloat e) current)"
  define stats where
    "stats = \<lparr>totalBalance = fsub (double_sum incomes) (double_sum expenses),
              monthlyIncome = double_sum incomes,
              monthlyExpenses = double_sum expenses,
              ds_ecoRating = rating totalCo2,
              co2Reduction =
                Math_max (Finite 0)
                  (Math_round
                     (fmul (fdiv (fsub (Finite 500) totalCo2) (Finite 500)) (Finite 100))),
              totalTransactions = length current\<rparr>"
  have eco: "ecoImpact_or_zero
               = (\<lambda>t. case t_ecoImpact t of None \<Rightarrow> Finite 0 | Some e \<Rightarrow> parseFloat e)"
    by (rule ext) (simp add: ecoImpact_or_zero_def split: option.splits)
  have cur: "monthlyTransactions db caller (month_of now) (year_of now) = current"
    by (simp add: monthlyTransactions_def current_def)
  have co2: "reduce_sum ecoImpact_or_zero current = totalCo2"
    by (simp only: reduce_sum_number_sum eco totalCo2_def)
  have r: "getDashboardStats db caller now = Inr stats"
    using assms
    by (simp add: getDashboardStats_def Let_def run_query_def cur co2 reduce_sum_amounts
        stats_def incomes_def expenses_def)
  then have g: "get_dashboard_stats db now caller = \<lparr>status = 200, body = Json stats\<rparr>"
    by (simp add: get_dashboard_stats_def)
  have i: "monthlyIncome stats = Finite (sum_list incomes)" if "exactly_summable 0 incomes"
    using that by (simp add: stats_def double_sum_exact)
  have e: "monthlyExpenses stats = Finite (sum_list expenses)" if "exactly_summable 0 expenses"
    using that by (simp add: stats_def double_sum_exact)
  have b: "totalBalance stats = Finite (sum_list incomes - sum_list expenses)"
    if "exactly_summable 0 incomes" and "exactly_summable 0 expenses"
      and "fl (sum_list incomes - sum_list expenses)
             = Finite (sum_list incomes - sum_list expenses)"
    using that by (simp add: stats_def double_sum_exact fsub_def)
  have "getDashboardStats db caller now = Inr stats
        \<and> get_dashboard_stats db now caller = \<lparr>status = 200, body = Json stats\<rparr>
        \<and> monthlyIncome stats = double_sum incomes
        \<and> monthlyExpenses stats = double_sum expenses
        \<and> totalBalance stats = fsub (double_sum incomes) (double_sum expenses)
        \<and> co2Reduction stats
            = Math_max (Finite 0)
                (Math_round
                   (fmul (fdiv (fsub (Finite 500) totalCo2) (Finite 500)) (Finite 100)))
        \<and> ds_ecoRating stats = rating totalCo2
        \<and> totalTransactions stats = length current
        \<and> (exactly_summable 0 incomes
             \<longrightarrow> monthlyIncome stats = Finite (sum_list incomes))
        \<and> (exactly_summable 0 expenses
             \<longrightarrow> monthlyExpenses stats = Finite (sum_list expenses))
        \<and> (exactly_summable 0 incomes \<and> exactly_summable 0 expenses
             \<and> fl (sum_list incomes - sum_list expenses)
                 = Finite (sum_list incomes - sum_list expenses)
             \<longrightarrow> totalBalance stats = Finite (sum_list incomes - sum_list expenses))"
    using r g i e b by (simp add: stats_def)
  then show ?thesis
    unfolding Let_def current_def [symmetric] incomes_def [symmetric]
      expenses_def [symmetric] totalCo2_def [symmetric]
    by blast
qed

lemma example_stats:
  "getDashboardStats example_db 1 today0
     = Inr \<lparr>totalBalance = Finite 60, monthlyIncome = Finite 100, monthlyExpenses = Finite 40,
            ds_ecoRating = ''A+'', co2Reduction = Finite 98, totalTransactions = 2\<rparr>"
  by code_simp

lemma rounding_stats:
  "getDashboardStats rounding_stats_db 1 today0
     = Inr \<lparr>totalBalance = Finite (- (3737020120485069 / 4398046511104)),
            monthlyIncome = Finite (1351079888211149 / 4503599627370496),
            monthlyExpenses = Finite 850,
            ds_ecoRating = ''B'', co2Reduction = Finite 57, totalTransactions = 3\<rparr>"
  by code_simp

theorem dashboard_stats_of_current_month_witness:
  "failing example_db Transactions = None
   \<and> exactly_summable 0 [100] \<and> exactly_summable 0 [40]
   \<and> (\<exists>stats. getDashboardStats example_db 1 today0 = Inr stats
         \<and> get_dashboard_stats example_db today0 1 = \<lparr>status = 200, body = Json stats\<rparr>
         \<and> monthlyIncome stats = Finite 100 \<and> monthlyExpenses stats = Finite 40
         \<and> totalBalance stats = Finite 60 \<and> co2Reduction stats = Finite 98
         \<and> ds_ecoRating stats = ''A+'' \<and> totalTransactions stats = 2)
   \<and> (\<exists>stats. getDashboardStats rounding_stats_db 1 today0 = Inr stats
         \<and> monthlyIncome stats = double_sum [1 / 10, 2 / 10]
         \<and> monthlyIncome stats = Finite (1351079888211149 / 4503599627370496)
         \<and> co2Reduction stats = Finite 57)"
proof -
  have ok: "failing example_db Transactions = None"
    by (simp add: example_db_def no_failure_def)
  have ok': "failing rounding_stats_db Transactions = None"
    by (simp add: rounding_stats_db_def no_failure_def)
  have inc: "map t_amount
               (filter (\<lambda>t. t_type t = ''income'')
                  (filter (\<lambda>t. t_userId t = 1 \<and> month_of (t_date t) = month_of today0
                               \<and> year_of (t_date t) = year_of today0)
                     (transactions example_db))) = [100]"
    by (simp add: example_db_def tx_def today0_def month_of_def year_of_def)
  have exp: "map t_amount
               (filter (\<lambda>t. t_type t = ''expense'')
                  (filter (\<lambda>t. t_userId t = 1 \<and> month_of (t_date t) = month_of today0
                               \<and> year_of (t_date t) = year_of today0)
                     (transactions example_db))) = [40]"
    by (simp add: example_db_def tx_def today0_def month_of_def year_of_def)
  have inc': "map t_amount
               (filter (\<lambda>t. t_type t = ''income'')
                  (filter (\<lambda>t. t_userId t = 1 \<and> month_of (t_date t) = month_of today0
                               \<and> year_of (t_date t) = year_of today0)
                     (transactions rounding_stats_db))) = [1 / 10, 2 / 10]"
    by (simp add: rounding_stats_db_def tx_def today0_def month_of_def year_of_def)
  have s: "exactly_summable 0 [100]" "exactly_summable 0 [40]"
    by code_simp+
  have d: "fl (sum_list [100] - sum_list [40]) = Finite (sum_list [100] - sum_list [40])"
    by code_simp
  from dashboard_stats_of_current_month [OF ok, of 1 today0]
  obtain stats where a: "getDashboardStats example_db 1 today0 = Inr stats"
    and b: "get_dashboard_stats example_db today0 1 = \<lparr>status = 200, body = Json stats\<rparr>"
    and i: "exactly_summable 0 [100] \<longrightarrow> monthlyIncome stats = Finite (sum_list [100])"
    and e: "exactly_summable 0 [40] \<longrightarrow> monthlyExpenses stats = Finite (sum_list [40])"
    and t: "exactly_summable 0 [100] \<and> exactly_summable 0 [40]
            \<and> fl (sum_list [100] - sum_list [40]) = Finite (sum_list [100] - sum_list [40])
            \<longrightarrow> totalBalance stats = Finite (sum_list [100] - sum_list [40])"
    unfolding Let_def inc exp by blast
  have first: "monthlyIncome stats = Finite 100 \<and> monthlyExpenses stats = Finite 40
               \<and> totalBalance stats = Finite 60"
    using i e t s d by simp
  have rest: "co2Reduction stats = Finite 98 \<and> ds_ecoRating stats = ''A+''
              \<and> totalTransactions stats = 2"
    using a unfolding example_stats by auto
  from dashboard_stats_of_current_month [OF ok', of 1 today0]
  obtain stats' where a': "getDashboardStats rounding_stats_db 1 today0 = Inr stats'"
    and i': "monthlyIncome stats' = double_sum [1 / 10, 2 / 10]"
    unfolding Let_def inc' by blast
  have rest': "monthlyIncome stats' = Finite (1351079888211149 / 4503599627370496)
               \<and> co2Reduction stats' = Finite 57"
    using a' unfolding rounding_stats by auto
  show ?thesis
    using ok s a b first rest a' i' rest' by blast
qed

subsection \<open>Active goals\<close>

lemma active_iff:
  "active userId today g
     \<longleftrightarrow> (g_userId g = userId \<and> g_targetAmount g > g_currentSaved g
          \<and> (case g_targetDate g of None \<Rightarrow> True
              | Some targetDate \<Rightarrow> date_of targetDate \<ge> date_of today))"
  by (auto simp add: active_def split: option.splits)

lemma orderBy_desc_sorted:
  "sorted_wrt (\<lambda>a b. column b \<le> column a) (orderBy_desc column rows)"
proof -
  have "sorted (map column (sort_key column rows))"
    by (rule sorted_sort_key)
  then have "sorted_wrt (\<lambda>a b. column a \<le> column b) (sort_key column rows)"
    by (simp add: sorted_map)
  then show ?thesis
    by (simp add: orderBy_desc_def sorted_wrt_rev)
qed

lemma orderBy_desc_mset: "mset (orderBy_desc column rows) = mset rows"
  by (simp add: orderBy_desc_def)

text \<open>
  C9. When the store answers, the active goals returned are exactly the caller's goals
  (each as often as it is stored) whose target amount is strictly greater than the
  amount saved and whose target date is null or not strictly before today's date, and
  they are ordered by creation time, newest first.
\<close>

theorem active_goals_newest_first:
  assumes "failing db Goals = None"
  shows "\<exists>rows. getActiveGoals db caller today = Inr rows
           \<and> get_goals_active db today caller = \<lparr>status = 200, body = Json rows\<rparr>
           \<and> mset rows = mset (filter (active caller today) (goals db))
           \<and> sorted_wrt (\<lambda>a b. g_createdAt b \<le> g_createdAt a) rows"
proof -
  have "filter (\<lambda>g. g_userId g = caller \<and> g_targetAmount g > g_currentSaved g
                    \<and> (case g_targetDate g of None \<Rightarrow> True
                        | Some targetDate \<Rightarrow> date_of targetDate \<ge> date_of today)) (goals db)
          = filter (active caller today) (goals db)"
    by (rule filter_cong) (simp_all add: active_iff)
  with assms show ?thesis
    by (simp add: getActiveGoals_def get_goals_active_def run_query_def Let_def
        orderBy_desc_sorted orderBy_desc_mset)
qed

theorem active_goals_newest_first_witness:
  "failing example_db Goals = None
   \<and> (\<exists>rows. getActiveGoals example_db 1 today0 = Inr rows
         \<and> get_goals_active example_db today0 1 = \<lparr>status = 200, body = Json rows\<rparr>
         \<and> mset rows = mset [gl 1 1 1000 0 None (2024, 1, 5, 0),
                              gl 4 1 300 10 (Some (2024, 3, 15, 0)) (2024, 1, 8, 0)]
         \<and> sorted_wrt (\<lambda>a b. g_createdAt b \<le> g_createdAt a) rows)"
  using active_goals_newest_first [of example_db 1 today0]
  by (simp add: example_db_def no_failure_def active_def gl_def today0_def date_of_def)

subsection \<open>The monthly report\<close>









lemma keys_add_to:
  "map fst (add_to acc k v) = (if k \<in> set (map fst acc) then map fst acc else map fst acc @ [k])"
  by (induction acc) force+

lemma fst_add_to: "set (map fst (add_to acc k v)) = insert k (set (map fst acc))"
  by (auto simp add: keys_add_to)








lemma double_sum_Nil [simp]: "double_sum [] = Finite 0"
  by (simp add: double_sum_def number_sum_def)


lemma fadd_finite_not_NaN: "s \<noteq> NaN \<Longrightarrow> is_finite x \<Longrightarrow> fadd s x \<noteq> NaN"
  by (cases s; cases x) simp_all








lemma entry_fields [simp]:
  "tc_category (category_entry E e) = fst e"
  "tc_amount (category_entry E e) = snd e"
  "tc_percentage (category_entry E e) = Math_round (fmul (fdiv (snd e) E) (Finite 100))"
  by (simp_all add: category_entry_def split: prod.splits)











end
